theory Spec2Isabelle
  imports Main
begin

section \<open>Values shared by the edge worker and the cache shell\<close>

text \<open>
  Both programs are JavaScript. A promise is modelled by the value it settles to:
  \<open>Inr v\<close> when it fulfils with \<open>v\<close>, \<open>Inl e\<close> when it rejects with \<open>e\<close>; a \<open>throw\<close>
  inside an \<open>async\<close> function or a \<open>then\<close> callback is the same \<open>Inl e\<close>.
\<close>

datatype failure = SyntaxError | TypeError | Thrown string

text \<open>
  A \<open>Response\<close>: the status, the headers given to the constructor and the body. The body type
  is a parameter: the worker builds text and stream bodies, the cache shell only hands
  responses on.
\<close>

record 'b response =
  status :: nat
  headers :: "(string \<times> string) list"
  body :: 'b

text \<open>\<open>String.prototype.startsWith\<close> with one argument.\<close>

definition startsWith :: "string \<Rightarrow> string \<Rightarrow> bool" where
  "startsWith s p = (take (length p) s = p)"

section \<open>The edge worker: request router and chat relay\<close>

subsection \<open>JSON values as \<open>request.json()\<close> delivers them\<close>

text \<open>
  The type \<open>'n\<close> stands for the numbers of JSON (doubles); the worker never reads one.
  An object is the list of its own properties, one binding per name, read with \<open>map_of\<close>.
\<close>

datatype 'n json_value =
    JNull
  | JBool bool
  | JNum 'n
  | JStr string
  | JArr "'n json_value list"
  | JObj "(string \<times> 'n json_value) list"

text \<open>
  The property read \<open>v.k\<close> for a name \<open>k\<close> that no built-in prototype defines and that is
  not an array index (the worker reads \<open>messages\<close> and \<open>role\<close> only): \<open>null\<close> throws a
  TypeError, an object gives its own property or \<open>undefined\<close> (\<open>None\<close>), every other value
  (boolean, number, string, array) gives \<open>undefined\<close>.
\<close>

fun get_property :: "'n json_value \<Rightarrow> string \<Rightarrow> failure + 'n json_value option" where
  "get_property JNull k = Inl TypeError"
| "get_property (JObj ps) k = Inr (map_of ps k)"
| "get_property (JBool b) k = Inr None"
| "get_property (JNum n) k = Inr None"
| "get_property (JStr s) k = Inr None"
| "get_property (JArr xs) k = Inr None"

subsection \<open>Requests, responses and the environment\<close>

text \<open>
  A \<open>Request\<close> with the properties the two programs read: \<open>http_method\<close> is
  \<open>request.method\<close>, and \<open>pathname\<close> is the path of \<open>new URL(request.url)\<close>.
  The worker also awaits \<open>request.json()\<close>: \<open>json\<close> is the value that promise
  settles to (\<open>Inl\<close> when the body is not JSON text).
\<close>

record request =
  http_method :: string
  url :: string
  pathname :: string
  mode :: string

record 'n json_request = request +
  json :: "failure + 'n json_value"

datatype 's body_init = Text string | Stream 's

text \<open>\<open>new Response(body, {status, headers})\<close>; the status defaults to 200.\<close>

definition new_Response ::
  "'s body_init \<Rightarrow> nat option \<Rightarrow> (string \<times> string) list \<Rightarrow> 's body_init response" where
  "new_Response b st hs =
     \<lparr>status = (case st of None \<Rightarrow> 200 | Some n \<Rightarrow> n), headers = hs, body = b\<rparr>"

text \<open>The second argument of \<open>env.AI.run\<close>.\<close>

record 'n ai_inputs =
  messages :: "'n json_value list"
  max_tokens :: nat
  stream :: bool

text \<open>
  The two collaborators of \<open>env\<close>: \<open>env.ASSETS.fetch(request)\<close> and
  \<open>env.AI.run(model, inputs, options)\<close>, each with the value its promise settles to.
\<close>

record ('n, 's) env =
  ASSETS_fetch :: "'n json_request \<Rightarrow> failure + 's body_init response"
  AI_run :: "string \<Rightarrow> 'n ai_inputs \<Rightarrow> (string \<times> 'n json_value) list \<Rightarrow> failure + 's"

subsection \<open>Constants\<close>

definition MODEL_ID :: string where
  "MODEL_ID = ''@cf/meta/llama-3.1-8b-instruct-fp8''"

text \<open>U+2014, the only character of the prompt outside ASCII, as its three UTF-8 bytes.\<close>

definition em_dash :: string where
  "em_dash = [CHR 0xE2, CHR 0x80, CHR 0x94]"

definition SYSTEM_PROMPT :: string where
  \<open>SYSTEM_PROMPT = concat [
     ''You are Ben, a sharp and thoughtful AI assistant. You're direct, warm, and genuinely useful '', em_dash, '' you don't pad responses with filler, you don't over-explain, and you don't lecture.\<newline>'',
     ''\<newline>'',
     ''## Personality\<newline>'',
     ''- Conversational and human in tone '', em_dash, '' like a knowledgeable friend, not a corporate chatbot\<newline>'',
     ''- Confident but not arrogant. You have opinions and share them when asked\<newline>'',
     ''- Concise by default. You match the length of your response to the complexity of the question '', em_dash, '' short questions get short answers, complex ones get thorough treatment\<newline>'',
     ''- You have a dry, understated wit. You're not trying to be funny, but you're not robotic either\<newline>'',
     ''- You never start a response with hollow affirmations like "Great question!", "Certainly!", "Of course!", or "Absolutely!"\<newline>'',
     ''\<newline>'',
     ''## Behavior\<newline>'',
     ''- Get to the point immediately. Lead with the answer, then add context if needed\<newline>'',
     ''- When you don't know something, say so plainly '', em_dash, '' don't speculate as if it's fact\<newline>'',
     ''- If a question is ambiguous, make a reasonable assumption and answer it, then note your assumption at the end\<newline>'',
     ''- For tasks (writing, coding, analysis), just do the task '', em_dash, '' don't narrate what you're about to do\<newline>'',
     ''- You can push back respectfully if you disagree or think there's a better approach\<newline>'',
     ''- Avoid bullet points for conversational responses. Use them only when a list genuinely helps\<newline>'',
     ''\<newline>'',
     ''## Boundaries\<newline>'',
     ''- You don't produce harmful, illegal, or deceptive content\<newline>'',
     ''- You don't pretend to be a human if sincerely asked\<newline>'',
     ''- You won't claim to have real-time information or browsing ability unless that capability is explicitly enabled\<newline>'',
     ''\<newline>'',
     ''## Format\<newline>'',
     ''- Default to plain prose for conversation\<newline>'',
     ''- Use markdown (headers, bullets, code blocks) only when it adds clarity '', em_dash, '' not as decoration\<newline>'',
     ''- Keep responses tight. If something can be said in one sentence, don't use three'']\<close>

text \<open>The object literal \<open>{ role: "system", content: SYSTEM_PROMPT }\<close>.\<close>

definition system_message :: "'n json_value" where
  "system_message = JObj [(''role'', JStr ''system''), (''content'', JStr SYSTEM_PROMPT)]"

subsection \<open>The chat relay\<close>

text \<open>
  \<open>const { messages = [] } = v\<close>: destructuring \<open>null\<close> throws, a missing property takes
  the default \<open>[]\<close>, a property that is present keeps its value, whatever it is.
\<close>

definition destructure_messages :: "'n json_value \<Rightarrow> failure + 'n json_value" where
  "destructure_messages v =
     (case get_property v ''messages'' of
        Inl e \<Rightarrow> Inl e
      | Inr None \<Rightarrow> Inr (JArr [])
      | Inr (Some m) \<Rightarrow> Inr m)"

text \<open>
  \<open>xs.some((msg) => msg.role === "system")\<close> over the elements of an array, left to
  right: it stops at the first element whose role is the string \<open>system\<close>, and the read
  \<open>msg.role\<close> throws on a \<open>null\<close> element reached before that.
\<close>

fun some_system :: "'n json_value list \<Rightarrow> failure + bool" where
  "some_system [] = Inr False"
| "some_system (msg # rest) =
     (case get_property msg ''role'' of
        Inl e \<Rightarrow> Inl e
      | Inr r \<Rightarrow> if r = Some (JStr ''system'') then Inr True else some_system rest)"

text \<open>
  Lines 89 to 92: \<open>messages.some\<close> is a function only when \<open>messages\<close> is an array (a JSON
  value holds no function), so the call throws a TypeError on anything else; when no
  system message is found, \<open>unshift\<close> puts the default one in front.
\<close>

definition add_system_prompt :: "'n json_value \<Rightarrow> failure + 'n json_value list" where
  "add_system_prompt m =
     (case m of
        JArr xs \<Rightarrow>
          (case some_system xs of
             Inl e \<Rightarrow> Inl e
           | Inr found \<Rightarrow> Inr (if \<not> found then system_message # xs else xs))
      | _ \<Rightarrow> Inl TypeError)"

text \<open>Lines 85 to 92 together: the list that reaches \<open>env.AI.run\<close>, or the exception.\<close>

definition resolve_messages :: "'n json_request \<Rightarrow> failure + 'n json_value list" where
  "resolve_messages request =
     (case json request of
        Inl e \<Rightarrow> Inl e
      | Inr v \<Rightarrow>
          (case destructure_messages v of
             Inl e \<Rightarrow> Inl e
           | Inr m \<Rightarrow> add_system_prompt m))"

definition stream_headers :: "(string \<times> string) list" where
  "stream_headers =
     [(''content-type'', ''text/event-stream; charset=utf-8''),
      (''cache-control'', ''no-cache''),
      (''connection'', ''keep-alive'')]"

text \<open>The body of the \<open>try\<close> block.\<close>

definition handleChatRequest_try ::
  "'n json_request \<Rightarrow> ('n, 's) env \<Rightarrow> failure + 's body_init response" where
  "handleChatRequest_try request env =
     (case resolve_messages request of
        Inl e \<Rightarrow> Inl e
      | Inr ms \<Rightarrow>
          (case AI_run env MODEL_ID \<lparr>messages = ms, max_tokens = 1024, stream = True\<rparr> [] of
             Inl e \<Rightarrow> Inl e
           | Inr s \<Rightarrow> Inr (new_Response (Stream s) None stream_headers)))"

text \<open>
  \<open>JSON.stringify\<close> of an object literal whose properties are strings without control
  characters: a quotation mark and a backslash are escaped, nothing is indented.
\<close>

definition quote_json :: "string \<Rightarrow> string" where
  "quote_json s =
     [CHR 0x22] @
     concat (map (\<lambda>c. if c = CHR 0x22 \<or> c = CHR 0x5C then [CHR 0x5C, c] else [c]) s) @
     [CHR 0x22]"

fun join_with :: "string \<Rightarrow> string list \<Rightarrow> string" where
  "join_with sep [] = []"
| "join_with sep [x] = x"
| "join_with sep (x # y # ys) = x @ sep @ join_with sep (y # ys)"

definition JSON_stringify_object :: "(string \<times> string) list \<Rightarrow> string" where
  "JSON_stringify_object ps =
     ''{'' @ join_with '','' (map (\<lambda>(k, v). quote_json k @ '':'' @ quote_json v) ps) @ ''}''"

text \<open>The \<open>catch\<close> block; \<open>console.error\<close> writes a log line and nothing else.\<close>

definition error_response :: "'s body_init response" where
  "error_response =
     new_Response (Text (JSON_stringify_object [(''error'', ''Failed to process request'')]))
       (Some 500) [(''content-type'', ''application/json'')]"

definition handleChatRequest :: "'n json_request \<Rightarrow> ('n, 's) env \<Rightarrow> 's body_init response" where
  "handleChatRequest request env =
     (case handleChatRequest_try request env of
        Inr r \<Rightarrow> r
      | Inl error \<Rightarrow> error_response)"

subsection \<open>The router\<close>

definition fetch :: "'n json_request \<Rightarrow> ('n, 's) env \<Rightarrow> failure + 's body_init response" where
  "fetch request env =
     (if pathname request = ''/'' \<or> \<not> startsWith (pathname request) ''/api/''
      then ASSETS_fetch env request
      else if pathname request = ''/api/chat''
      then (if http_method request = ''POST''
            then Inr (handleChatRequest request env)
            else Inr (new_Response (Text ''Method not allowed'') (Some 405) []))
      else Inr (new_Response (Text ''Not found'') (Some 404) []))"

section \<open>The offline cache shell\<close>

definition CACHE_NAME :: string where
  "CACHE_NAME = ''ben-chat-v1''"

definition STATIC_ASSETS :: "string list" where
  "STATIC_ASSETS = [''/'', ''/index.html'', ''/chat.js'', ''/manifest.json'']"

subsection \<open>The browser's cache storage\<close>

text \<open>
  A cache holds responses under request URLs; \<open>caches\<close> holds the caches under their names,
  in the order of their creation. \<open>calls\<close> records every call made on \<open>caches\<close> or on a
  cache, oldest first, so that "this request never touched the cache" can be stated.
\<close>

type_synonym 'b cache = "(string \<times> 'b response) list"

datatype cache_call =
    Match string
  | Open string
  | Put string string
  | AddAll string "string list"
  | Delete string
  | Keys

record 'b cache_storage =
  buckets :: "(string \<times> 'b cache) list"
  calls :: "cache_call list"

text \<open>
  The worker's surroundings: the origin that a relative URL such as \<open>/index.html\<close> is
  resolved against, and the network, giving for a request what \<open>fetch(request)\<close> settles to.
\<close>

record 'b shell_env =
  origin :: string
  network :: "request \<Rightarrow> failure + 'b response"

text \<open>\<open>new Request(u)\<close> for a path \<open>u\<close>: a GET request, mode \<open>cors\<close>.\<close>

definition new_Request :: "string \<Rightarrow> string \<Rightarrow> request" where
  "new_Request org u = \<lparr>http_method = ''GET'', url = org @ u, pathname = u, mode = ''cors''\<rparr>"

text \<open>\<open>caches.open(name)\<close> creates the cache when there is none of that name.\<close>

definition caches_open :: "string \<Rightarrow> 'b cache_storage \<Rightarrow> 'b cache_storage" where
  "caches_open name st =
     st\<lparr>buckets := (if name \<in> set (map fst (buckets st)) then buckets st
                     else buckets st @ [(name, [])]),
        calls := calls st @ [Open name]\<rparr>"

text \<open>
  \<open>caches.match\<close> asks the caches in the order of their creation and gives the first
  stored response, \<open>undefined\<close> (\<open>None\<close>) when there is none. Only a GET request matches.
  This is the browser's lookup, not code of the worker, and it is modelled in part: an entry
  matches when its URL is the same string, while the browser also leaves the fragment of a
  URL out of the comparison and looks at the \<open>Vary\<close> header.
\<close>

fun match_first :: "(string \<times> 'b cache) list \<Rightarrow> string \<Rightarrow> 'b response option" where
  "match_first [] u = None"
| "match_first ((name, c) # rest) u =
     (case map_of c u of Some r \<Rightarrow> Some r | None \<Rightarrow> match_first rest u)"

definition caches_match ::
  "string \<Rightarrow> string \<Rightarrow> 'b cache_storage \<Rightarrow> 'b response option \<times> 'b cache_storage" where
  "caches_match m u st =
     (if m = ''GET'' then match_first (buckets st) u else None,
      st\<lparr>calls := calls st @ [Match u]\<rparr>)"

text \<open>\<open>cache.put\<close> replaces the entry stored under the request's URL.\<close>

definition put_entry :: "string \<Rightarrow> 'b response \<Rightarrow> 'b cache \<Rightarrow> 'b cache" where
  "put_entry u r c = filter (\<lambda>(k, v). k \<noteq> u) c @ [(u, r)]"

definition cache_put ::
  "string \<Rightarrow> string \<Rightarrow> 'b response \<Rightarrow> 'b cache_storage \<Rightarrow> 'b cache_storage" where
  "cache_put name u r st =
     st\<lparr>buckets := map (\<lambda>(n, c). if n = name then (n, put_entry u r c) else (n, c)) (buckets st),
        calls := calls st @ [Put name u]\<rparr>"

text \<open>\<open>caches.delete(name)\<close> fulfils with whether there was such a cache.\<close>

definition caches_delete :: "string \<Rightarrow> 'b cache_storage \<Rightarrow> bool \<times> 'b cache_storage" where
  "caches_delete name st =
     (name \<in> set (map fst (buckets st)),
      st\<lparr>buckets := filter (\<lambda>(n, c). n \<noteq> name) (buckets st),
         calls := calls st @ [Delete name]\<rparr>)"

definition caches_keys :: "'b cache_storage \<Rightarrow> string list \<times> 'b cache_storage" where
  "caches_keys st = (map fst (buckets st), st\<lparr>calls := calls st @ [Keys]\<rparr>)"

text \<open>
  \<open>cache.addAll(urls)\<close> after the Cache interface of the browser, which the worker only
  calls: every URL is fetched; when a fetch fails, or a response has a status outside 200
  to 299 or the status 206, the promise rejects and nothing is stored; otherwise every
  response is stored under its URL. The browser rejects a response with the header
  \<open>Vary: *\<close> as well; \<open>addAll_ok\<close> tests the status only.
\<close>

definition addAll_ok :: "failure + 'b response \<Rightarrow> bool" where
  "addAll_ok f =
     (case f of
        Inl e \<Rightarrow> False
      | Inr r \<Rightarrow> 200 \<le> status r \<and> status r \<le> 299 \<and> status r \<noteq> 206)"

fun store_all :: "(string \<times> (failure + 'b response)) list \<Rightarrow> 'b cache \<Rightarrow> 'b cache" where
  "store_all [] c = c"
| "store_all ((u, Inr r) # rest) c = store_all rest (put_entry u r c)"
| "store_all ((u, Inl e) # rest) c = store_all rest c"

definition cache_addAll ::
  "'b shell_env \<Rightarrow> string \<Rightarrow> string list \<Rightarrow> 'b cache_storage \<Rightarrow>
     (failure + unit) \<times> 'b cache_storage" where
  "cache_addAll env name us st =
     (let fetched = map (\<lambda>u. (origin env @ u, network env (new_Request (origin env) u))) us;
          st1 = st\<lparr>calls := calls st @ [AddAll name us]\<rparr>
      in if list_all (\<lambda>(u, f). addAll_ok f) fetched
         then (Inr (),
               st1\<lparr>buckets :=
                     map (\<lambda>(n, c). if n = name then (n, store_all fetched c) else (n, c))
                       (buckets st1)\<rparr>)
         else (Inl TypeError, st1))"

subsection \<open>The install listener\<close>

text \<open>
  The promise given to \<open>event.waitUntil\<close> and the storage afterwards. The \<open>catch\<close> turns a
  rejection of \<open>addAll\<close> into a fulfilled promise. \<open>self.skipWaiting()\<close> touches no cache.
\<close>

definition install ::
  "'b shell_env \<Rightarrow> 'b cache_storage \<Rightarrow> (failure + unit) \<times> 'b cache_storage" where
  "install env st =
     (let (added, st2) = cache_addAll env CACHE_NAME STATIC_ASSETS (caches_open CACHE_NAME st)
      in (case added of Inl e \<Rightarrow> (Inr (), st2) | Inr u \<Rightarrow> (Inr u, st2)))"

subsection \<open>The activate listener\<close>

text \<open>\<open>keys.map(k => caches.delete(k))\<close>: the deletions start in the order of the keys.\<close>

fun delete_each :: "string list \<Rightarrow> 'b cache_storage \<Rightarrow> bool list \<times> 'b cache_storage" where
  "delete_each [] st = ([], st)"
| "delete_each (k # ks) st =
     (let (b, st1) = caches_delete k st; (bs, st2) = delete_each ks st1 in (b # bs, st2))"

text \<open>
  The promise given to \<open>event.waitUntil\<close> (\<open>Promise.all\<close> of the deletions, none of which
  rejects) and the storage afterwards. \<open>self.clients.claim()\<close> touches no cache.
\<close>

definition activate :: "'b cache_storage \<Rightarrow> (failure + bool list) \<times> 'b cache_storage" where
  "activate st =
     (let (keys, st1) = caches_keys st;
          (deleted, st2) = delete_each (filter (\<lambda>k. k \<noteq> CACHE_NAME) keys) st1
      in (Inr deleted, st2))"

subsection \<open>The fetch listener\<close>

text \<open>
  The value that the promise given to \<open>event.respondWith\<close> settles to (\<open>Inr None\<close> when it
  fulfils with \<open>undefined\<close>) and the storage afterwards. The write
  \<open>caches.open(CACHE_NAME).then(cache => cache.put(...))\<close> is not awaited by the response;
  the storage returned is the one after that write has run.
\<close>

definition fetch_listener ::
  "'b shell_env \<Rightarrow> request \<Rightarrow> 'b cache_storage \<Rightarrow>
     (failure + 'b response option) \<times> 'b cache_storage" where
  "fetch_listener env request st =
     (if startsWith (pathname request) ''/api/''
      then (case network env request of Inl e \<Rightarrow> (Inl e, st) | Inr r \<Rightarrow> (Inr (Some r), st))
      else
        (let (cached, st1) = caches_match (http_method request) (url request) st in
         case cached of
           Some r \<Rightarrow> (Inr (Some r), st1)
         | None \<Rightarrow>
             (case network env request of
                Inr response \<Rightarrow>
                  (if http_method request = ''GET'' \<and> status response = 200
                   then (Inr (Some response),
                         cache_put CACHE_NAME (url request) response (caches_open CACHE_NAME st1))
                   else (Inr (Some response), st1))
              | Inl e \<Rightarrow>
                  (if mode request = ''navigate''
                   then (let (fallback, st2) = caches_match ''GET'' (origin env @ ''/index.html'') st1
                         in (Inr fallback, st2))
                   else (Inr None, st1)))))"

section \<open>A predicate of the specification, and concrete inputs\<close>



subsection \<open>Requests to the worker and two environments\<close>

definition user_message :: "nat json_value" where
  "user_message = JObj [(''role'', JStr ''user''), (''content'', JStr ''hi'')]"

definition chat_request :: "nat json_request" where
  "chat_request =
     \<lparr>http_method = ''POST'', url = ''https://chat.example/api/chat'', pathname = ''/api/chat'',
      mode = ''cors'', json = Inr (JObj [(''messages'', JArr [user_message])])\<rparr>"







text \<open>The same request with the bodies \<open>true\<close> and \<open>null\<close>.\<close>

definition true_request :: "nat json_request" where
  "true_request = chat_request\<lparr>json := Inr (JBool True)\<rparr>"

definition null_request :: "nat json_request" where
  "null_request = chat_request\<lparr>json := Inr JNull\<rparr>"

definition home_request :: "nat json_request" where
  "home_request =
     \<lparr>http_method = ''GET'', url = ''https://chat.example/'', pathname = ''/'',
      mode = ''navigate'', json = Inl SyntaxError\<rparr>"

definition get_chat_request :: "nat json_request" where
  "get_chat_request = home_request\<lparr>url := ''https://chat.example/api/chat'', pathname := ''/api/chat''\<rparr>"

definition unknown_request :: "nat json_request" where
  "unknown_request =
     home_request\<lparr>url := ''https://chat.example/api/unknown'', pathname := ''/api/unknown''\<rparr>"

definition assets_page :: "nat json_request \<Rightarrow> failure + string body_init response" where
  "assets_page r = Inr (new_Response (Text ''<!doctype html>'') None [])"

definition reply_stream ::
  "string \<Rightarrow> nat ai_inputs \<Rightarrow> (string \<times> nat json_value) list \<Rightarrow> failure + string" where
  "reply_stream model inputs options = Inr ''data: [DONE]''"

definition no_reply ::
  "string \<Rightarrow> nat ai_inputs \<Rightarrow> (string \<times> nat json_value) list \<Rightarrow> failure + string" where
  "no_reply model inputs options = Inl (Thrown ''inference unavailable'')"

definition live_env :: "(nat, string) env" where
  "live_env = \<lparr>ASSETS_fetch = assets_page, AI_run = reply_stream\<rparr>"

definition down_env :: "(nat, string) env" where
  "down_env = \<lparr>ASSETS_fetch = assets_page, AI_run = no_reply\<rparr>"

subsection \<open>Requests seen by the cache shell, networks and storages\<close>

definition offline :: "request \<Rightarrow> failure + string response" where
  "offline r = Inl TypeError"

definition offline_env :: "string shell_env" where
  "offline_env = \<lparr>origin = ''https://chat.example'', network = offline\<rparr>"

definition index_page :: "string response" where
  "index_page = \<lparr>status = 200, headers = [], body = ''<!doctype html>''\<rparr>"

text \<open>A network on which every shell asset exists except \<open>/chat.js\<close>.\<close>

definition no_script :: "request \<Rightarrow> failure + string response" where
  "no_script r =
     (if pathname r = ''/chat.js''
      then Inr \<lparr>status = 404, headers = [], body = ''Not found''\<rparr>
      else Inr index_page)"

definition no_script_env :: "string shell_env" where
  "no_script_env = \<lparr>origin = ''https://chat.example'', network = no_script\<rparr>"

definition online :: "request \<Rightarrow> failure + string response" where
  "online r = Inr index_page"

definition online_env :: "string shell_env" where
  "online_env = \<lparr>origin = ''https://chat.example'', network = online\<rparr>"

definition empty_storage :: "string cache_storage" where
  "empty_storage = \<lparr>buckets = [], calls = []\<rparr>"

definition shell_storage :: "string cache_storage" where
  "shell_storage =
     \<lparr>buckets = [(CACHE_NAME, [(''https://chat.example/index.html'', index_page)])],
      calls = []\<rparr>"

text \<open>The storage of a browser that still holds the cache of an earlier version.\<close>

definition upgraded_storage :: "string cache_storage" where
  "upgraded_storage =
     \<lparr>buckets = [(''ben-chat-v0'', [(''https://chat.example/index.html'', index_page)]),
                 (CACHE_NAME, [(''https://chat.example/index.html'', index_page)])],
      calls = []\<rparr>"

text \<open>
  A storage in which the cache of an earlier version holds an older page under
  \<open>/index.html\<close>, and one in which the root document is stored under \<open>/\<close> only.
\<close>

definition old_page :: "string response" where
  "old_page = \<lparr>status = 200, headers = [], body = ''<!doctype html><title>v0</title>''\<rparr>"

definition stale_storage :: "string cache_storage" where
  "stale_storage =
     \<lparr>buckets = [(''ben-chat-v0'', [(''https://chat.example/index.html'', old_page)]),
                 (CACHE_NAME, [(''https://chat.example/index.html'', index_page)])],
      calls = []\<rparr>"

definition root_only_storage :: "string cache_storage" where
  "root_only_storage =
     \<lparr>buckets = [(CACHE_NAME, [(''https://chat.example/'', index_page)])], calls = []\<rparr>"

definition script_request :: request where
  "script_request =
     \<lparr>http_method = ''GET'', url = ''https://chat.example/chat.js'', pathname = ''/chat.js'',
      mode = ''no-cors''\<rparr>"

definition page_request :: request where
  "page_request =
     \<lparr>http_method = ''GET'', url = ''https://chat.example/about'', pathname = ''/about'',
      mode = ''navigate''\<rparr>"

definition api_request :: request where
  "api_request =
     \<lparr>http_method = ''POST'', url = ''https://chat.example/api/chat'', pathname = ''/api/chat'',
      mode = ''cors''\<rparr>"

section \<open>The chat relay: the list sent to inference\<close>

lemma error_response_eq:
  \<open>error_response =
     \<lparr>status = 500, headers = [(''content-type'', ''application/json'')],
      body = Text ''{"error":"Failed to process request"}''\<rparr>\<close>
  by (simp add: error_response_def new_Response_def JSON_stringify_object_def quote_json_def)

lemma try_failure:
  "handleChatRequest_try request env = Inl e \<Longrightarrow> handleChatRequest request env = error_response"
  by (simp add: handleChatRequest_def)

text \<open>The default prompt is the text of lines 17 to 42, 1786 bytes in UTF-8.\<close>

lemma SYSTEM_PROMPT_shape:
  "length SYSTEM_PROMPT = 1786
   \<and> take 20 SYSTEM_PROMPT = ''You are Ben, a sharp''
   \<and> drop 1766 SYSTEM_PROMPT = ''nce, don't use three''"
  by (simp add: SYSTEM_PROMPT_def em_dash_def)






section \<open>The chat relay: responses\<close>

text \<open>
  C2, as the code has it. For every POST \<open>/api/chat\<close> request where \<open>request.json()\<close>
  rejects (malformed JSON), where the parsed body is \<open>null\<close>, where the inference
  invocation fails, or where anything else in the \<open>try\<close> block throws, the relay returns
  exactly status 500 with the body \<open>{"error":"Failed to process request"}\<close> and the
  content type \<open>application/json\<close>: every failure gives this one response. A body that is a
  boolean, a number, a string or an array is no failure: it is read as an empty message
  list, and the default system message alone goes to inference.
\<close>

theorem relay_failure_response:
  \<open>(json request = Inl e \<or> json request = Inr JNull
      \<or> (resolve_messages request = Inr ms
          \<and> AI_run env MODEL_ID \<lparr>messages = ms, max_tokens = 1024, stream = True\<rparr> [] = Inl e)
      \<or> handleChatRequest_try request env = Inl e
     \<longrightarrow> handleChatRequest request env =
           \<lparr>status = 500, headers = [(''content-type'', ''application/json'')],
            body = Text ''{"error":"Failed to process request"}''\<rparr>)
   \<and> (json request = Inr v \<and> v \<noteq> JNull \<and> (\<forall>ps. v \<noteq> JObj ps) \<longrightarrow>
        resolve_messages request = Inr [system_message])\<close>
proof (intro conjI impI)
  assume a: \<open>json request = Inl e \<or> json request = Inr JNull
      \<or> (resolve_messages request = Inr ms
          \<and> AI_run env MODEL_ID \<lparr>messages = ms, max_tokens = 1024, stream = True\<rparr> [] = Inl e)
      \<or> handleChatRequest_try request env = Inl e\<close>
  have "\<exists>e'. handleChatRequest_try request env = Inl e'"
    using a
    by (auto simp: handleChatRequest_try_def resolve_messages_def destructure_messages_def)
  then show \<open>handleChatRequest request env =
           \<lparr>status = 500, headers = [(''content-type'', ''application/json'')],
            body = Text ''{"error":"Failed to process request"}''\<rparr>\<close>
    using try_failure error_response_eq by metis
next
  assume "json request = Inr v \<and> v \<noteq> JNull \<and> (\<forall>ps. v \<noteq> JObj ps)"
  then show "resolve_messages request = Inr [system_message]"
    by (cases v) (simp_all add: resolve_messages_def destructure_messages_def add_system_prompt_def)
qed

theorem relay_failure_response_witness:
  \<open>json null_request = Inr JNull
   \<and> handleChatRequest null_request live_env =
       \<lparr>status = 500, headers = [(''content-type'', ''application/json'')],
        body = Text ''{"error":"Failed to process request"}''\<rparr>
   \<and> resolve_messages chat_request = Inr [system_message, user_message]
   \<and> AI_run down_env MODEL_ID
        \<lparr>messages = [system_message, user_message], max_tokens = 1024, stream = True\<rparr> [] =
       Inl (Thrown ''inference unavailable'')
   \<and> handleChatRequest chat_request down_env =
       \<lparr>status = 500, headers = [(''content-type'', ''application/json'')],
        body = Text ''{"error":"Failed to process request"}''\<rparr>
   \<and> json true_request = Inr (JBool True)
   \<and> resolve_messages true_request = Inr [system_message]\<close>
proof -
  have n: "json null_request = Inr JNull"
    by (simp add: null_request_def)
  have c: "resolve_messages chat_request = Inr [system_message, user_message]"
    by (simp add: chat_request_def user_message_def resolve_messages_def
        destructure_messages_def add_system_prompt_def)
  have d: "AI_run down_env MODEL_ID
        \<lparr>messages = [system_message, user_message], max_tokens = 1024, stream = True\<rparr> [] =
       Inl (Thrown ''inference unavailable'')"
    by (simp add: down_env_def no_reply_def)
  have t: "json true_request = Inr (JBool True)"
    by (simp add: true_request_def)
  from n c d t
    relay_failure_response [of null_request "Thrown ''inference unavailable''"
      "[system_message, user_message]" live_env JNull]
    relay_failure_response [of chat_request "Thrown ''inference unavailable''"
      "[system_message, user_message]" down_env JNull]
    relay_failure_response [of true_request "Thrown ''inference unavailable''"
      "[system_message, user_message]" live_env "JBool True"]
  show ?thesis by simp
qed

text \<open>
  C2 as stated fails: the body \<open>true\<close> is valid JSON and not an object, the inference
  invocation succeeds, and the relay answers 200 with the stream.
\<close>

theorem non_object_body_counterexample:
  "json true_request = Inr (JBool True) \<and>
   handleChatRequest true_request live_env =
     \<lparr>status = 200, headers = stream_headers, body = Stream ''data: [DONE]''\<rparr> \<and>
   status (handleChatRequest true_request live_env) \<noteq> 500"
  by (simp add: true_request_def chat_request_def live_env_def reply_stream_def
      handleChatRequest_def handleChatRequest_try_def resolve_messages_def
      destructure_messages_def add_system_prompt_def new_Response_def)

text \<open>
  C3. For every POST \<open>/api/chat\<close> request where lines 85 to 92 run through and the
  inference invocation fulfils with a stream \<open>s\<close>, the relay returns status 200, the body
  \<open>s\<close> itself, and exactly the headers \<open>content-type: text/event-stream; charset=utf-8\<close>,
  \<open>cache-control: no-cache\<close> and \<open>connection: keep-alive\<close>; the router returns that response.
\<close>

theorem relay_success_response:
  assumes "resolve_messages request = Inr ms"
    and "AI_run env MODEL_ID \<lparr>messages = ms, max_tokens = 1024, stream = True\<rparr> [] = Inr s"
  shows "handleChatRequest request env =
           \<lparr>status = 200,
            headers = [(''content-type'', ''text/event-stream; charset=utf-8''),
                       (''cache-control'', ''no-cache''),
                       (''connection'', ''keep-alive'')],
            body = Stream s\<rparr>
       \<and> (pathname request = ''/api/chat'' \<and> http_method request = ''POST'' \<longrightarrow>
            fetch request env = Inr (handleChatRequest request env))"
  using assms
  by (simp add: handleChatRequest_def handleChatRequest_try_def new_Response_def
      stream_headers_def fetch_def startsWith_def)

theorem relay_success_response_witness:
  "resolve_messages chat_request = Inr [system_message, user_message]
   \<and> AI_run live_env MODEL_ID
        \<lparr>messages = [system_message, user_message], max_tokens = 1024, stream = True\<rparr> [] =
       Inr ''data: [DONE]''
   \<and> pathname chat_request = ''/api/chat'' \<and> http_method chat_request = ''POST''
   \<and> fetch chat_request live_env =
       Inr \<lparr>status = 200,
            headers = [(''content-type'', ''text/event-stream; charset=utf-8''),
                       (''cache-control'', ''no-cache''),
                       (''connection'', ''keep-alive'')],
            body = Stream ''data: [DONE]''\<rparr>"
proof -
  have c: "resolve_messages chat_request = Inr [system_message, user_message]"
    by (simp add: chat_request_def user_message_def resolve_messages_def
        destructure_messages_def add_system_prompt_def)
  have a: "AI_run live_env MODEL_ID
        \<lparr>messages = [system_message, user_message], max_tokens = 1024, stream = True\<rparr> [] =
       Inr ''data: [DONE]''"
    by (simp add: live_env_def reply_stream_def)
  have p: "pathname chat_request = ''/api/chat''" "http_method chat_request = ''POST''"
    by (simp_all add: chat_request_def)
  from relay_success_response [OF c a] c a p show ?thesis by simp
qed

section \<open>The router\<close>

text \<open>
  C4. For every request whose path is \<open>/\<close> or does not start with \<open>/api/\<close>, the router
  returns what the static-asset collaborator returns for that request, unchanged.
\<close>

theorem static_pass_through:
  "pathname request = ''/'' \<or> \<not> startsWith (pathname request) ''/api/'' \<Longrightarrow>
     fetch request env = ASSETS_fetch env request"
  by (simp add: fetch_def)

theorem static_pass_through_witness:
  "pathname home_request = ''/''
   \<and> fetch home_request live_env = ASSETS_fetch live_env home_request
   \<and> fetch home_request live_env =
       Inr \<lparr>status = 200, headers = [], body = Text ''<!doctype html>''\<rparr>"
proof -
  have p: "pathname home_request = ''/''"
    by (simp add: home_request_def)
  from static_pass_through [of home_request live_env] p show ?thesis
    by (simp add: live_env_def assets_page_def new_Response_def)
qed

text \<open>
  C5. For every request whose path starts with \<open>/api/\<close>: when the path is exactly
  \<open>/api/chat\<close> and the method is not POST, the router returns status 405 with the body
  \<open>Method not allowed\<close>; when the path is any other one, it returns status 404 with the
  body \<open>Not found\<close>, whatever the method.
\<close>

theorem api_fixed_errors:
  assumes "startsWith (pathname request) ''/api/''"
  shows "(pathname request = ''/api/chat'' \<and> http_method request \<noteq> ''POST'' \<longrightarrow>
            fetch request env =
              Inr \<lparr>status = 405, headers = [], body = Text ''Method not allowed''\<rparr>)
       \<and> (pathname request \<noteq> ''/api/chat'' \<longrightarrow>
            fetch request env = Inr \<lparr>status = 404, headers = [], body = Text ''Not found''\<rparr>)"
proof -
  from assms have "pathname request \<noteq> ''/''" by (auto simp: startsWith_def)
  with assms show ?thesis by (auto simp: fetch_def new_Response_def startsWith_def)
qed

theorem api_fixed_errors_witness:
  "startsWith (pathname get_chat_request) ''/api/''
   \<and> pathname get_chat_request = ''/api/chat'' \<and> http_method get_chat_request = ''GET''
   \<and> fetch get_chat_request live_env =
       Inr \<lparr>status = 405, headers = [], body = Text ''Method not allowed''\<rparr>
   \<and> startsWith (pathname unknown_request) ''/api/''
   \<and> pathname unknown_request = ''/api/unknown''
   \<and> fetch unknown_request live_env =
       Inr \<lparr>status = 404, headers = [], body = Text ''Not found''\<rparr>"
proof -
  have g: "startsWith (pathname get_chat_request) ''/api/''"
    "pathname get_chat_request = ''/api/chat''" "http_method get_chat_request = ''GET''"
    by (simp_all add: get_chat_request_def home_request_def startsWith_def)
  have u: "startsWith (pathname unknown_request) ''/api/''"
    "pathname unknown_request = ''/api/unknown''"
    by (simp_all add: unknown_request_def home_request_def startsWith_def)
  from api_fixed_errors [OF g(1), of live_env] api_fixed_errors [OF u(1), of live_env] g u
  show ?thesis by simp
qed

section \<open>The cache shell: the fetch listener\<close>

text \<open>
  C6. For every intercepted request whose path starts with \<open>/api/\<close>, what the listener
  answers is what the network fetch of that request settles to; no call is made on the
  cache storage (the record of calls is as before), no cache changes, and the answer is the
  same whatever the storage holds.
\<close>

theorem api_bypasses_cache:
  assumes "startsWith (pathname request) ''/api/''"
  shows "fetch_listener env request st =
           (case network env request of Inl e \<Rightarrow> Inl e | Inr r \<Rightarrow> Inr (Some r), st)
       \<and> calls (snd (fetch_listener env request st)) = calls st
       \<and> buckets (snd (fetch_listener env request st)) = buckets st
       \<and> fst (fetch_listener env request st) = fst (fetch_listener env request st')"
  using assms by (simp add: fetch_listener_def split: sum.splits)

theorem api_bypasses_cache_witness:
  "startsWith (pathname api_request) ''/api/''
   \<and> fetch_listener online_env api_request shell_storage = (Inr (Some index_page), shell_storage)
   \<and> fst (fetch_listener online_env api_request shell_storage) =
       fst (fetch_listener online_env api_request empty_storage)"
proof -
  have a: "startsWith (pathname api_request) ''/api/''"
    by (simp add: api_request_def startsWith_def)
  note t = api_bypasses_cache [OF a, of online_env shell_storage empty_storage]
  from t have r: "fetch_listener online_env api_request shell_storage =
      (Inr (Some index_page), shell_storage)"
    by (simp add: online_env_def online_def)
  from t have "fst (fetch_listener online_env api_request shell_storage) =
      fst (fetch_listener online_env api_request empty_storage)"
    by blast
  with a r show ?thesis by blast
qed

text \<open>
  C7, as the code has it. For every intercepted request outside \<open>/api/\<close> that misses the
  cache, whose network fetch fails and whose mode is not navigation, no fallback is
  attempted (the one call on the storage is the first lookup, and no cache changes), and the
  \<open>catch\<close> callback takes the failure and returns nothing: the promise given to
  \<open>respondWith\<close> fulfils with \<open>undefined\<close>, neither a response nor the error.
\<close>

theorem failed_fetch_fulfils_undefined:
  assumes "\<not> startsWith (pathname request) ''/api/''"
    and "fst (caches_match (http_method request) (url request) st) = None"
    and "network env request = Inl e"
    and "mode request \<noteq> ''navigate''"
  shows "fetch_listener env request st =
           (Inr None, st\<lparr>calls := calls st @ [Match (url request)]\<rparr>)"
  using assms by (simp add: fetch_listener_def caches_match_def)

theorem failed_fetch_fulfils_undefined_witness:
  "\<not> startsWith (pathname script_request) ''/api/''
   \<and> fst (caches_match (http_method script_request) (url script_request) shell_storage) = None
   \<and> network offline_env script_request = Inl TypeError
   \<and> mode script_request \<noteq> ''navigate''
   \<and> fetch_listener offline_env script_request shell_storage =
       (Inr None, shell_storage\<lparr>calls := [Match ''https://chat.example/chat.js'']\<rparr>)"
proof -
  have h: "\<not> startsWith (pathname script_request) ''/api/''"
    "fst (caches_match (http_method script_request) (url script_request) shell_storage) = None"
    "network offline_env script_request = Inl TypeError"
    "mode script_request \<noteq> ''navigate''"
    by (simp_all add: script_request_def shell_storage_def offline_env_def offline_def
        caches_match_def startsWith_def)
  have u: "url script_request = ''https://chat.example/chat.js''" "calls shell_storage = []"
    by (simp_all add: script_request_def shell_storage_def)
  from failed_fetch_fulfils_undefined [OF h] h u show ?thesis by simp
qed

text \<open>
  C7 as stated fails: the request for \<open>/chat.js\<close> misses the cache, the network fetch
  rejects with a TypeError, the mode is not navigation, and the listener's promise fulfils
  with \<open>undefined\<close> instead of rejecting with that error.
\<close>

theorem failed_fetch_counterexample:
  "\<not> startsWith (pathname script_request) ''/api/'' \<and>
   fst (caches_match (http_method script_request) (url script_request) shell_storage) = None \<and>
   network offline_env script_request = Inl TypeError \<and>
   mode script_request \<noteq> ''navigate'' \<and>
   fst (fetch_listener offline_env script_request shell_storage) = Inr None \<and>
   fst (fetch_listener offline_env script_request shell_storage) \<noteq> Inl TypeError"
  by (simp add: fetch_listener_def caches_match_def script_request_def shell_storage_def
      offline_env_def offline_def startsWith_def)

lemma match_first_current:
  assumes "map_of bs CACHE_NAME = Some c" and "map_of c u = Some doc"
    and "\<forall>(n, c') \<in> set bs. n \<noteq> CACHE_NAME \<longrightarrow> map_of c' u = None"
  shows "match_first bs u = Some doc"
  using assms
proof (induction bs)
  case Nil
  then show ?case by simp
next
  case (Cons b bs)
  obtain n c' where b: "b = (n, c')" by (cases b)
  show ?case
  proof (cases "n = CACHE_NAME")
    case True
    with Cons.prems b show ?thesis by simp
  next
    case False
    with Cons b show ?thesis by simp
  qed
qed

lemma match_first_some:
  assumes "map_of bs name = Some c" and "map_of c u = Some doc"
  shows "\<exists>d. match_first bs u = Some d"
  using assms
proof (induction bs)
  case Nil
  then show ?case by simp
next
  case (Cons b bs)
  obtain n c' where b: "b = (n, c')" by (cases b)
  show ?case
  proof (cases "map_of c' u")
    case None
    with Cons b show ?thesis by (auto split: if_splits)
  next
    case (Some d)
    with b show ?thesis by simp
  qed
qed

text \<open>What \<open>caches.match\<close> finds is the entry of the first cache that holds one.\<close>

lemma match_first_split:
  assumes "match_first bs u = Some d"
  shows "\<exists>pre n c' post. bs = pre @ (n, c') # post
           \<and> list_all (\<lambda>(m, k). map_of k u = None) pre \<and> map_of c' u = Some d"
  using assms
proof (induction bs)
  case Nil
  then show ?case by simp
next
  case (Cons b bs)
  obtain n c' where b: "b = (n, c')" by (cases b)
  show ?case
  proof (cases "map_of c' u")
    case None
    with Cons.prems b have "match_first bs u = Some d" by simp
    then obtain pre n' c'' post where p: "bs = pre @ (n', c'') # post"
      "list_all (\<lambda>(m, k). map_of k u = None) pre" "map_of c'' u = Some d"
      using Cons.IH by blast
    from p None b have "b # bs = ((n, c') # pre) @ (n', c'') # post
        \<and> list_all (\<lambda>(m, k). map_of k u = None) ((n, c') # pre) \<and> map_of c'' u = Some d"
      by simp
    then show ?thesis by blast
  next
    case (Some r)
    with Cons.prems b have "b # bs = [] @ (n, c') # bs
        \<and> list_all (\<lambda>(m, k). map_of k u = None) [] \<and> map_of c' u = Some d"
      by simp
    then show ?thesis by blast
  qed
qed

text \<open>
  C9, as the code has it. Let an intercepted navigation request outside \<open>/api/\<close> miss
  the cache and let its network fetch fail, while the current cache holds a document under
  \<open>/index.html\<close>. Then the listener answers with a response cached under \<open>/index.html\<close>,
  not with an error: the one of the first cache, in the order of creation, that holds one.
  It is the document of the current cache when no cache of another name holds one under
  \<open>/index.html\<close>.
\<close>

theorem navigation_fallback:
  assumes "\<not> startsWith (pathname request) ''/api/''"
    and "mode request = ''navigate''"
    and "fst (caches_match (http_method request) (url request) st) = None"
    and "network env request = Inl e"
    and "map_of (buckets st) CACHE_NAME = Some c"
    and "map_of c (origin env @ ''/index.html'') = Some doc"
  shows "(\<exists>pre n c' post d.
            buckets st = pre @ (n, c') # post
            \<and> list_all (\<lambda>(m, k). map_of k (origin env @ ''/index.html'') = None) pre
            \<and> map_of c' (origin env @ ''/index.html'') = Some d
            \<and> fst (fetch_listener env request st) = Inr (Some d))
       \<and> ((\<forall>(n, c') \<in> set (buckets st).
              n \<noteq> CACHE_NAME \<longrightarrow> map_of c' (origin env @ ''/index.html'') = None) \<longrightarrow>
            fst (fetch_listener env request st) = Inr (Some doc))"
proof -
  have l: "fst (fetch_listener env request st) =
      Inr (match_first (buckets st) (origin env @ ''/index.html''))"
    using assms(1-4) by (simp add: fetch_listener_def caches_match_def split_beta)
  from assms(5,6) obtain d
    where d: "match_first (buckets st) (origin env @ ''/index.html'') = Some d"
    using match_first_some by blast
  from match_first_split [OF d] l d
  have first: "\<exists>pre n c' post d.
            buckets st = pre @ (n, c') # post
            \<and> list_all (\<lambda>(m, k). map_of k (origin env @ ''/index.html'') = None) pre
            \<and> map_of c' (origin env @ ''/index.html'') = Some d
            \<and> fst (fetch_listener env request st) = Inr (Some d)"
    by auto
  have "fst (fetch_listener env request st) = Inr (Some doc)"
    if "\<forall>(n, c') \<in> set (buckets st).
          n \<noteq> CACHE_NAME \<longrightarrow> map_of c' (origin env @ ''/index.html'') = None"
    using l match_first_current [OF assms(5,6) that] by simp
  with first show ?thesis by blast
qed

theorem navigation_fallback_witness:
  "\<not> startsWith (pathname page_request) ''/api/''
   \<and> mode page_request = ''navigate''
   \<and> fst (caches_match (http_method page_request) (url page_request) shell_storage) = None
   \<and> network offline_env page_request = Inl TypeError
   \<and> map_of (buckets shell_storage) CACHE_NAME =
       Some [(''https://chat.example/index.html'', index_page)]
   \<and> map_of [(''https://chat.example/index.html'', index_page)]
        (origin offline_env @ ''/index.html'') = Some index_page
   \<and> fst (fetch_listener offline_env page_request shell_storage) = Inr (Some index_page)"
proof -
  have h: "\<not> startsWith (pathname page_request) ''/api/''"
    "mode page_request = ''navigate''"
    "fst (caches_match (http_method page_request) (url page_request) shell_storage) = None"
    "network offline_env page_request = Inl TypeError"
    "map_of (buckets shell_storage) CACHE_NAME =
       Some [(''https://chat.example/index.html'', index_page)]"
    "map_of [(''https://chat.example/index.html'', index_page)]
        (origin offline_env @ ''/index.html'') = Some index_page"
    by (simp_all add: page_request_def shell_storage_def offline_env_def offline_def
        caches_match_def startsWith_def)
  have o: "buckets shell_storage = [(CACHE_NAME, [(''https://chat.example/index.html'', index_page)])]"
    by (simp add: shell_storage_def)
  from navigation_fallback [OF h] o have
    "fst (fetch_listener offline_env page_request shell_storage) = Inr (Some index_page)"
    by simp
  with h show ?thesis by blast
qed

text \<open>
  C9 as stated fails. With the cache of an earlier version still there, the root document
  is stored in the current cache, and the listener answers with the older page of the
  earlier cache. With the root document stored under \<open>/\<close> only, the listener's promise
  fulfils with \<open>undefined\<close>.
\<close>

theorem stale_cache_counterexample:
  "\<not> startsWith (pathname page_request) ''/api/'' \<and>
   mode page_request = ''navigate'' \<and>
   fst (caches_match (http_method page_request) (url page_request) stale_storage) = None \<and>
   network offline_env page_request = Inl TypeError \<and>
   map_of (buckets stale_storage) CACHE_NAME =
     Some [(''https://chat.example/index.html'', index_page)] \<and>
   fst (fetch_listener offline_env page_request stale_storage) = Inr (Some old_page) \<and>
   old_page \<noteq> index_page \<and>
   fst (caches_match (http_method page_request) (url page_request) root_only_storage) = None \<and>
   map_of (buckets root_only_storage) CACHE_NAME = Some [(''https://chat.example/'', index_page)] \<and>
   fst (fetch_listener offline_env page_request root_only_storage) = Inr None"
  by (simp add: fetch_listener_def caches_match_def page_request_def stale_storage_def
      root_only_storage_def offline_env_def offline_def old_page_def index_page_def
      CACHE_NAME_def startsWith_def)

text \<open>A cache miss answered by the network with a GET and status 200 is stored.\<close>

lemma miss_is_stored:
  "fetch_listener online_env script_request empty_storage =
     (Inr (Some index_page),
      \<lparr>buckets = [(CACHE_NAME, [(''https://chat.example/chat.js'', index_page)])],
       calls = [Match ''https://chat.example/chat.js'', Open CACHE_NAME,
                Put CACHE_NAME ''https://chat.example/chat.js'']\<rparr>)"
  by (simp add: fetch_listener_def caches_match_def caches_open_def cache_put_def put_entry_def
      script_request_def empty_storage_def online_env_def online_def index_page_def
      startsWith_def)

section \<open>The cache shell: activation\<close>

lemma buckets_delete_each:
  "buckets (snd (delete_each ks st)) = filter (\<lambda>(n, c). n \<notin> set ks) (buckets st)"
proof (induction ks arbitrary: st)
  case Nil
  then show ?case by simp
next
  case (Cons k ks)
  have "buckets (snd (delete_each (k # ks) st)) =
          buckets (snd (delete_each ks (snd (caches_delete k st))))"
    by (simp add: split_beta)
  also have "\<dots> = filter (\<lambda>(n, c). n \<notin> set ks) (buckets (snd (caches_delete k st)))"
    by (rule Cons.IH)
  also have "\<dots> = filter (\<lambda>(n, c). n \<notin> set (k # ks)) (buckets st)"
    by (auto simp: caches_delete_def intro: filter_cong)
  finally show ?case .
qed

text \<open>
  C8. After the activate listener has run, the caches left are exactly the ones named
  with the current version string, with their contents: every cache of another name has
  been deleted, the current one has not, and the list of names that \<open>caches.keys()\<close>
  gives holds no name of an earlier version.
\<close>

theorem activate_keeps_current_only:
  "buckets (snd (activate st)) = filter (\<lambda>(n, c). n = CACHE_NAME) (buckets st)
   \<and> fst (caches_keys (snd (activate st))) =
       filter (\<lambda>k. k = CACHE_NAME) (fst (caches_keys st))
   \<and> map_of (buckets (snd (activate st))) CACHE_NAME = map_of (buckets st) CACHE_NAME"
proof -
  have "buckets (snd (activate st)) =
      filter (\<lambda>(n, c). n \<notin> set (filter (\<lambda>k. k \<noteq> CACHE_NAME) (map fst (buckets st))))
        (buckets st)"
    by (simp add: activate_def caches_keys_def split_beta buckets_delete_each)
  also have "\<dots> = filter (\<lambda>(n, c). n = CACHE_NAME) (buckets st)"
    by (rule filter_cong) force+
  finally have eq:
    "buckets (snd (activate st)) = filter (\<lambda>(n, c). n = CACHE_NAME) (buckets st)" .
  have keys: "map fst (filter (\<lambda>(n, c). n = CACHE_NAME) bs) =
      filter (\<lambda>k. k = CACHE_NAME) (map fst bs)"
    for bs :: "(string \<times> 'a cache) list"
    by (induction bs) auto
  have look: "map_of (filter (\<lambda>(n, c). n = CACHE_NAME) bs) CACHE_NAME = map_of bs CACHE_NAME"
    for bs :: "(string \<times> 'a cache) list"
    by (induction bs) auto
  from eq keys look show ?thesis by (simp add: caches_keys_def)
qed

theorem activate_keeps_current_only_witness:
  "fst (caches_keys upgraded_storage) = [''ben-chat-v0'', CACHE_NAME]
   \<and> buckets (snd (activate upgraded_storage)) =
       [(CACHE_NAME, [(''https://chat.example/index.html'', index_page)])]
   \<and> fst (caches_keys (snd (activate upgraded_storage))) = [CACHE_NAME]"
  using activate_keeps_current_only [of upgraded_storage]
  by (simp add: upgraded_storage_def caches_keys_def CACHE_NAME_def)

section \<open>The cache shell: installation\<close>

text \<open>
  C10. When one of the fixed shell assets cannot be stored (its fetch fails or its
  response is not a success), \<open>addAll\<close> rejects, the rejection is swallowed, and the
  install step stores nothing: it leaves every cache as it was, apart from creating the
  current cache, empty, when it did not exist. The promise given to \<open>waitUntil\<close> fulfils,
  so installation completes.
\<close>

theorem install_all_or_nothing:
  assumes "\<exists>u \<in> set STATIC_ASSETS. \<not> addAll_ok (network env (new_Request (origin env) u))"
  shows "fst (cache_addAll env CACHE_NAME STATIC_ASSETS (caches_open CACHE_NAME st)) =
           Inl TypeError
       \<and> fst (install env st) = Inr ()
       \<and> buckets (snd (install env st)) =
           (if CACHE_NAME \<in> set (map fst (buckets st)) then buckets st
            else buckets st @ [(CACHE_NAME, [])])"
proof -
  from assms have "\<not> list_all (\<lambda>(u, f). addAll_ok f)
      (map (\<lambda>u. (origin env @ u, network env (new_Request (origin env) u))) STATIC_ASSETS)"
    by (auto simp: list_all_iff)
  then show ?thesis
    by (simp add: install_def cache_addAll_def caches_open_def Let_def)
qed

theorem install_all_or_nothing_witness:
  "''/chat.js'' \<in> set STATIC_ASSETS
   \<and> \<not> addAll_ok (network no_script_env (new_Request (origin no_script_env) ''/chat.js''))
   \<and> addAll_ok (network no_script_env (new_Request (origin no_script_env) ''/index.html''))
   \<and> fst (install no_script_env empty_storage) = Inr ()
   \<and> buckets (snd (install no_script_env empty_storage)) = [(CACHE_NAME, [])]"
proof -
  have m: "''/chat.js'' \<in> set STATIC_ASSETS"
    by (simp add: STATIC_ASSETS_def)
  have f: "\<not> addAll_ok (network no_script_env (new_Request (origin no_script_env) ''/chat.js''))"
    "addAll_ok (network no_script_env (new_Request (origin no_script_env) ''/index.html''))"
    by (simp_all add: addAll_ok_def no_script_env_def no_script_def new_Request_def
        index_page_def)
  from m f(1)
  have "\<exists>u \<in> set STATIC_ASSETS.
      \<not> addAll_ok (network no_script_env (new_Request (origin no_script_env) u))"
    by blast
  from install_all_or_nothing [OF this, of empty_storage] m f show ?thesis
    by (simp add: empty_storage_def)
qed

text \<open>When every shell asset is there, the install step stores all four.\<close>

lemma install_stores_all:
  "install online_env empty_storage =
     (Inr (),
      \<lparr>buckets = [(CACHE_NAME,
          [(''https://chat.example/'', index_page),
           (''https://chat.example/index.html'', index_page),
           (''https://chat.example/chat.js'', index_page),
           (''https://chat.example/manifest.json'', index_page)])],
       calls = [Open CACHE_NAME, AddAll CACHE_NAME STATIC_ASSETS]\<rparr>)"
  by (simp add: install_def cache_addAll_def caches_open_def addAll_ok_def put_entry_def
      STATIC_ASSETS_def empty_storage_def online_env_def online_def index_page_def)

end
